theory Spec2Isabelle
  imports Complex_Main
begin

section \<open>Values, errors and the threshold table\<close>

text \<open>
  A reading that reaches the rule engine is a Python object: \<open>None\<close>, the float
  not-a-number, or a number.  Numbers are modelled as reals; a decimal literal of the
  source (\<open>37.8\<close>, \<open>88.1\<close>) stands for the real it denotes.  The only
  operations the engine applies to readings are order comparisons, which are exact on
  floats, so no rounding takes place inside the engine; rounding a literal to its
  float is monotone, so two literals compare as their reals do unless both round to
  one float.

  A comparison of \<open>None\<close> with a number and \<open>np.isnan(None)\<close> both raise
  \<open>TypeError\<close>; every comparison with not-a-number is false.
\<close>

datatype pyval = PyNone | NaN | Num real

datatype py_error = TypeError

definition py_lt :: "pyval \<Rightarrow> real \<Rightarrow> py_error + bool" where
  "py_lt x c = (case x of PyNone \<Rightarrow> Inl TypeError | NaN \<Rightarrow> Inr False | Num v \<Rightarrow> Inr (v < c))"

definition py_gt :: "pyval \<Rightarrow> real \<Rightarrow> py_error + bool" where
  "py_gt x c = (case x of PyNone \<Rightarrow> Inl TypeError | NaN \<Rightarrow> Inr False | Num v \<Rightarrow> Inr (v > c))"

definition py_ge :: "pyval \<Rightarrow> real \<Rightarrow> py_error + bool" where
  "py_ge x c = (case x of PyNone \<Rightarrow> Inl TypeError | NaN \<Rightarrow> Inr False | Num v \<Rightarrow> Inr (v \<ge> c))"

text \<open>The nested dictionary \<open>THRESHOLDS\<close>, one record per group of keys.\<close>

record hr_cfg =
  hr_low_upper :: real
  hr_mod_upper :: real
  hr_high_upper :: real
  hr_low_lower :: real
  hr_mod_lower :: real
  hr_high_lower :: real

record spo2_cfg =
  spo2_low :: real
  spo2_mod :: real
  spo2_high :: real

record skin_temp_cfg =
  st_fever_low :: real
  st_fever_high :: real
  st_hypo_low :: real
  st_hypo_high :: real

record bp_cfg =
  bp_high1 :: real
  bp_high2 :: real
  bp_high3 :: real
  bp_low1 :: real
  bp_low2 :: real
  bp_low3 :: real

record steps_cfg =
  steps_very_low :: int
  steps_low :: int
  steps_very_high :: int

record altitude_spo2_cfg =
  alt_high1 :: real
  alt_high2 :: real
  spo2_soft :: real
  spo2_hard :: real
  spo2_crit :: real

type_synonym band = "int \<times> int \<times> string"

record thresholds =
  cfg_hr :: hr_cfg
  cfg_spo2 :: spo2_cfg
  cfg_skin_temp :: skin_temp_cfg
  cfg_bp_sys :: bp_cfg
  cfg_bp_dia :: bp_cfg
  cfg_steps :: steps_cfg
  cfg_altitude_spo2 :: altitude_spo2_cfg
  cfg_label_bands :: "band list"

definition THRESHOLDS :: thresholds where
  "THRESHOLDS = \<lparr>
     cfg_hr = \<lparr>hr_low_upper = 110, hr_mod_upper = 130, hr_high_upper = 140,
               hr_low_lower = 60, hr_mod_lower = 50, hr_high_lower = 45\<rparr>,
     cfg_spo2 = \<lparr>spo2_low = 95, spo2_mod = 92, spo2_high = 88\<rparr>,
     cfg_skin_temp = \<lparr>st_fever_low = 37.8, st_fever_high = 38.5,
                      st_hypo_low = 35.5, st_hypo_high = 35.0\<rparr>,
     cfg_bp_sys = \<lparr>bp_high1 = 140, bp_high2 = 160, bp_high3 = 180,
                   bp_low1 = 90, bp_low2 = 80, bp_low3 = 70\<rparr>,
     cfg_bp_dia = \<lparr>bp_high1 = 90, bp_high2 = 100, bp_high3 = 110,
                   bp_low1 = 60, bp_low2 = 50, bp_low3 = 45\<rparr>,
     cfg_steps = \<lparr>steps_very_low = 2000, steps_low = 400, steps_very_high = 30000\<rparr>,
     cfg_altitude_spo2 = \<lparr>alt_high1 = 2500, alt_high2 = 3000,
                          spo2_soft = 94, spo2_hard = 92, spo2_crit = 88\<rparr>,
     cfg_label_bands = [(0, 2, ''LOW''), (3, 6, ''MODERATE''), (7, 11, ''HIGH''),
                        (12, 99, ''CRITICAL'')]\<rparr>"

definition WEATHERS :: "string list" where
  "WEATHERS = [''Clear'', ''Hot'', ''Cold'', ''Rain'', ''Storm'', ''Snow'', ''Windy'', ''Fog'']"

section \<open>The vitals sub-score\<close>

text \<open>
  \<open>wearable_risk_score\<close> guards each reading with
  \<open>x is not None and not np.isnan(x)\<close>, so only a number enters a ladder; the three
  ladders add to the running \<open>score\<close> in turn.
\<close>

definition wearable_risk_score :: "pyval \<Rightarrow> pyval \<Rightarrow> pyval \<Rightarrow> thresholds \<Rightarrow> int" where
  "wearable_risk_score hr_bpm spo2_pct skin_temp_c cfg =
     (let score = 0;
          score = (case hr_bpm of
                     Num v \<Rightarrow>
                       (let hr = cfg_hr cfg in
                        if v > hr_high_upper hr \<or> v < hr_high_lower hr then score + 3
                        else if v > hr_mod_upper hr \<or> v < hr_mod_lower hr then score + 2
                        else if v > hr_low_upper hr \<or> v < hr_low_lower hr then score + 1
                        else score)
                   | _ \<Rightarrow> score);
          score = (case spo2_pct of
                     Num v \<Rightarrow>
                       (let sp = cfg_spo2 cfg in
                        if v < spo2_high sp then score + 3
                        else if v < spo2_mod sp then score + 2
                        else if v < spo2_low sp then score + 1
                        else score)
                   | _ \<Rightarrow> score);
          score = (case skin_temp_c of
                     Num v \<Rightarrow>
                       (let st = cfg_skin_temp cfg in
                        if v \<ge> st_fever_high st then score + 3
                        else if v \<ge> st_fever_low st then score + 2
                        else if v \<le> st_hypo_high st then score + 2
                        else if v \<le> st_hypo_low st then score + 1
                        else score)
                   | _ \<Rightarrow> score)
      in score)"

section \<open>Label mapping\<close>

text \<open>
  The \<open>for\<close> loop of \<open>map_total_to_label\<close> returns from inside at the first band
  whose inclusive range holds the total; \<open>scan_bands\<close> is that loop, with \<open>None\<close>
  for a loop that ran to its end.  The function then returns the literal \<open>"LOW"\<close>.
\<close>

fun scan_bands :: "int \<Rightarrow> band list \<Rightarrow> string option" where
  "scan_bands tot [] = None"
| "scan_bands tot ((lo, hi, lab) # bands) =
     (if lo \<le> tot \<and> tot \<le> hi then Some lab else scan_bands tot bands)"

definition map_total_to_label :: "int \<Rightarrow> band list \<Rightarrow> string" where
  "map_total_to_label tot bands =
     (case scan_bands tot bands of Some lab \<Rightarrow> lab | None \<Rightarrow> ''LOW'')"

section \<open>The row rule\<close>

text \<open>
  A row carries the nine columns the rule reads.  The body of \<open>rule_label_row\<close>
  is a sequence of stages that each add to the running \<open>s\<close>; every stage is a
  definition below giving the amount it adds, or the error it raises.
\<close>

record row =
  hr_bpm :: pyval
  spo2_pct :: pyval
  skin_temp :: pyval
  bloodpressure_systolic :: pyval
  bp_diastolic :: pyval
  altitude :: real
  steps :: int
  past_incident_flag :: int
  weather_condition :: string

text \<open>
  Blood pressure: \<open>if not np.isnan(sys)\<close> raises on \<open>None\<close>, skips not-a-number and
  sends a number down the ladder.  The diastolic ladder awards 2 at both \<open>high3\<close> and
  \<open>high2\<close>, and at both \<open>low3\<close> and \<open>low2\<close>.
\<close>

definition bp_sys_penalty :: "pyval \<Rightarrow> py_error + int" where
  "bp_sys_penalty sys =
     (case sys of
        PyNone \<Rightarrow> Inl TypeError
      | NaN \<Rightarrow> Inr 0
      | Num v \<Rightarrow>
          (let bp = cfg_bp_sys THRESHOLDS in
           Inr (if v \<ge> bp_high3 bp then 3
                else if v \<ge> bp_high2 bp then 2
                else if v \<ge> bp_high1 bp then 1
                else if v \<le> bp_low3 bp then 3
                else if v \<le> bp_low2 bp then 2
                else if v \<le> bp_low1 bp then 1
                else 0)))"

definition bp_dia_penalty :: "pyval \<Rightarrow> py_error + int" where
  "bp_dia_penalty dia =
     (case dia of
        PyNone \<Rightarrow> Inl TypeError
      | NaN \<Rightarrow> Inr 0
      | Num v \<Rightarrow>
          (let bp = cfg_bp_dia THRESHOLDS in
           Inr (if v \<ge> bp_high3 bp then 2
                else if v \<ge> bp_high2 bp then 2
                else if v \<ge> bp_high1 bp then 1
                else if v \<le> bp_low3 bp then 2
                else if v \<le> bp_low2 bp then 2
                else if v \<le> bp_low1 bp then 1
                else 0)))"

text \<open>
  Altitude and oxygen: \<open>and\<close> evaluates its right operand only when the left one
  holds, so the reading is compared (and may raise) only above the altitude cutoff.
\<close>

definition py_and :: "bool \<Rightarrow> py_error + bool \<Rightarrow> py_error + bool" where
  "py_and a b = (if a then b else Inr False)"

definition altitude_spo2_penalty :: "real \<Rightarrow> pyval \<Rightarrow> py_error + int" where
  "altitude_spo2_penalty alt spo2 =
     (let as = cfg_altitude_spo2 THRESHOLDS in
      case py_and (alt \<ge> alt_high2 as) (py_lt spo2 (spo2_hard as)) of
        Inl e \<Rightarrow> Inl e
      | Inr hard \<Rightarrow>
          if hard then
            (case py_lt spo2 (spo2_crit as) of
               Inl e \<Rightarrow> Inl e
             | Inr crit \<Rightarrow> Inr (if crit then 3 + 1 else 3))
          else
            (case py_and (alt \<ge> alt_high1 as) (py_lt spo2 (spo2_soft as)) of
               Inl e \<Rightarrow> Inl e
             | Inr soft \<Rightarrow> Inr (if soft then 2 else 0)))"

text \<open>Steps: the second test uses the literal 1000, not the table's \<open>low\<close>.\<close>

definition steps_penalty :: "int \<Rightarrow> int" where
  "steps_penalty n =
     (let st_cfg = cfg_steps THRESHOLDS in
      if n \<le> steps_very_low st_cfg then 2
      else if n \<le> 1000 then 1
      else if n \<ge> steps_very_high st_cfg then 1
      else 0)"

definition incident_penalty :: "int \<Rightarrow> int" where
  "incident_penalty flag = (if flag = 1 then 2 else 0)"

text \<open>
  Weather: any string that is none of the five tested ones falls through every branch.
  Under \<open>Hot\<close> the two readings are compared with the literals 37.8 and 110 without a
  guard; \<open>or\<close> reads the heart rate only when the first comparison is false.
\<close>

definition weather_penalty :: "string \<Rightarrow> pyval \<Rightarrow> pyval \<Rightarrow> py_error + int" where
  "weather_penalty w skin hr =
     (if w = ''Storm'' then Inr 2
      else if w \<in> set [''Rain'', ''Snow'', ''Fog''] then Inr 1
      else if w = ''Hot'' then
        (case py_ge skin 37.8 of
           Inl e \<Rightarrow> Inl e
         | Inr fever \<Rightarrow>
             if fever then Inr 1
             else (case py_gt hr 110 of
                     Inl e \<Rightarrow> Inl e
                   | Inr fast \<Rightarrow> Inr (if fast then 1 else 0)))
      else Inr 0)"

text \<open>
  \<open>rule_score\<close> is the value of \<open>s\<close> when \<open>rule_label_row\<close> reaches its last line:
  the stages run in the order of the source and the first raise ends the call.  There
  \<open>int(s)\<close> leaves the integer as it is.
\<close>

definition rule_score :: "row \<Rightarrow> py_error + int" where
  "rule_score r =
     (let s = wearable_risk_score (hr_bpm r) (spo2_pct r) (skin_temp r) THRESHOLDS in
      case bp_sys_penalty (bloodpressure_systolic r) of
        Inl e \<Rightarrow> Inl e
      | Inr p_sys \<Rightarrow>
      (case bp_dia_penalty (bp_diastolic r) of
        Inl e \<Rightarrow> Inl e
      | Inr p_dia \<Rightarrow>
      (case altitude_spo2_penalty (altitude r) (spo2_pct r) of
        Inl e \<Rightarrow> Inl e
      | Inr p_alt \<Rightarrow>
      (let s = s + p_sys + p_dia + p_alt + steps_penalty (steps r)
                 + incident_penalty (past_incident_flag r) in
       case weather_penalty (weather_condition r) (skin_temp r) (hr_bpm r) of
         Inl e \<Rightarrow> Inl e
       | Inr p_w \<Rightarrow> Inr (s + p_w)))))"

definition rule_label_row :: "row \<Rightarrow> py_error + string" where
  "rule_label_row r =
     (case rule_score r of
        Inl e \<Rightarrow> Inl e
      | Inr s \<Rightarrow> Inr (map_total_to_label s (cfg_label_bands THRESHOLDS)))"

section \<open>Predicates and sample rows\<close>

text \<open>A reading is missing when it is \<open>None\<close> or not-a-number.\<close>

definition is_missing :: "pyval \<Rightarrow> bool" where
  "is_missing x = (case x of Num v \<Rightarrow> False | _ \<Rightarrow> True)"

text \<open>No reading of the row is \<open>None\<close>: each is a number or not-a-number.\<close>

definition no_none :: "row \<Rightarrow> bool" where
  "no_none r = (hr_bpm r \<noteq> PyNone \<and> spo2_pct r \<noteq> PyNone \<and> skin_temp r \<noteq> PyNone
                \<and> bloodpressure_systolic r \<noteq> PyNone \<and> bp_diastolic r \<noteq> PyNone)"

text \<open>The declared domain of the two fields that have one.\<close>

definition well_formed :: "row \<Rightarrow> bool" where
  "well_formed r = (weather_condition r \<in> set WEATHERS \<and> 0 \<le> steps r)"

text \<open>
  The activity sub-score in its shorter form, without the test against 1000.
\<close>

definition steps_simple :: "int \<Rightarrow> int" where
  "steps_simple n = (if n \<le> 2000 then 2 else if n \<ge> 30000 then 1 else 0)"

text \<open>A resting subject in clear weather; the rows below change a few fields of it.\<close>

definition calm_row :: row where
  "calm_row = \<lparr>hr_bpm = Num 75, spo2_pct = Num 98, skin_temp = Num 36.5,
                bloodpressure_systolic = Num 118, bp_diastolic = Num 76,
                altitude = 300, steps = 6000, past_incident_flag = 0,
                weather_condition = ''Clear''\<rparr>"

definition tornado_row :: row where
  "tornado_row = calm_row\<lparr>weather_condition := ''Tornado''\<rparr>"

definition absent_sys_row :: row where
  "absent_sys_row = calm_row\<lparr>bloodpressure_systolic := PyNone\<rparr>"

definition hot_absent_hr_row :: row where
  "hot_absent_hr_row = calm_row\<lparr>hr_bpm := PyNone, weather_condition := ''Hot''\<rparr>"

definition hot_nan_row :: row where
  "hot_nan_row = calm_row\<lparr>hr_bpm := NaN, skin_temp := NaN, bp_diastolic := NaN,
                            weather_condition := ''Hot''\<rparr>"

definition scenario_row :: row where
  "scenario_row = \<lparr>hr_bpm = Num 150, spo2_pct = Num 90, skin_temp = Num 36,
                    bloodpressure_systolic = Num 100, bp_diastolic = Num 70,
                    altitude = 1000, steps = 5000, past_incident_flag = 0,
                    weather_condition = ''Clear''\<rparr>"

definition worst_row :: row where
  "worst_row = \<lparr>hr_bpm = Num 150, spo2_pct = Num 85, skin_temp = Num 39,
                 bloodpressure_systolic = Num 185, bp_diastolic = Num 115,
                 altitude = 3200, steps = 100, past_incident_flag = 1,
                 weather_condition = ''Storm''\<rparr>"

section \<open>Label bands\<close>

lemma label_bands_eq:
  "cfg_label_bands THRESHOLDS =
     [(0, 2, ''LOW''), (3, 6, ''MODERATE''), (7, 11, ''HIGH''), (12, 99, ''CRITICAL'')]"
  by (simp add: THRESHOLDS_def)

lemma scan_label_bands:
  "scan_bands tot (cfg_label_bands THRESHOLDS) =
     (if 0 \<le> tot \<and> tot \<le> 2 then Some ''LOW''
      else if 3 \<le> tot \<and> tot \<le> 6 then Some ''MODERATE''
      else if 7 \<le> tot \<and> tot \<le> 11 then Some ''HIGH''
      else if 12 \<le> tot \<and> tot \<le> 99 then Some ''CRITICAL''
      else None)"
  by (simp add: label_bands_eq)

section \<open>The stages at the configured thresholds\<close>

lemma wearable_risk_score_THRESHOLDS:
  "wearable_risk_score h s t THRESHOLDS =
     (case h of Num v \<Rightarrow>
        (if v > 140 \<or> v < 45 then 3 else if v > 130 \<or> v < 50 then 2
         else if v > 110 \<or> v < 60 then 1 else 0) | _ \<Rightarrow> 0)
   + (case s of Num v \<Rightarrow>
        (if v < 88 then 3 else if v < 92 then 2 else if v < 95 then 1 else 0) | _ \<Rightarrow> 0)
   + (case t of Num v \<Rightarrow>
        (if v \<ge> 38.5 then 3 else if v \<ge> 37.8 then 2 else if v \<le> 35 then 2
         else if v \<le> 35.5 then 1 else 0) | _ \<Rightarrow> 0)"
  by (simp add: wearable_risk_score_def THRESHOLDS_def Let_def split: pyval.split)

lemma bp_sys_penalty_simps:
  "bp_sys_penalty PyNone = Inl TypeError"
  "bp_sys_penalty NaN = Inr 0"
  "bp_sys_penalty (Num v) =
     Inr (if v \<ge> 180 then 3 else if v \<ge> 160 then 2 else if v \<ge> 140 then 1
          else if v \<le> 70 then 3 else if v \<le> 80 then 2 else if v \<le> 90 then 1 else 0)"
  by (simp_all add: bp_sys_penalty_def THRESHOLDS_def)

lemma bp_dia_penalty_simps:
  "bp_dia_penalty PyNone = Inl TypeError"
  "bp_dia_penalty NaN = Inr 0"
  "bp_dia_penalty (Num v) =
     Inr (if v \<ge> 110 then 2 else if v \<ge> 100 then 2 else if v \<ge> 90 then 1
          else if v \<le> 45 then 2 else if v \<le> 50 then 2 else if v \<le> 60 then 1 else 0)"
  by (simp_all add: bp_dia_penalty_def THRESHOLDS_def)

lemma altitude_spo2_penalty_simps:
  "altitude_spo2_penalty alt PyNone = (if alt \<ge> 2500 then Inl TypeError else Inr 0)"
  "altitude_spo2_penalty alt NaN = Inr 0"
  "altitude_spo2_penalty alt (Num v) =
     Inr (if alt \<ge> 3000 \<and> v < 92 then (if v < 88 then 4 else 3)
          else if alt \<ge> 2500 \<and> v < 94 then 2 else 0)"
  by (simp_all add: altitude_spo2_penalty_def THRESHOLDS_def py_and_def py_lt_def Let_def)

lemma steps_penalty_eq:
  "steps_penalty n = (if n \<le> 2000 then 2 else if n \<ge> 30000 then 1 else 0)"
  by (simp add: steps_penalty_def THRESHOLDS_def)

lemma weather_penalty_Hot:
  "weather_penalty ''Hot'' skin hr =
     (case skin of
        PyNone \<Rightarrow> Inl TypeError
      | NaN \<Rightarrow> (case hr of PyNone \<Rightarrow> Inl TypeError | NaN \<Rightarrow> Inr 0
                 | Num h \<Rightarrow> Inr (if h > 110 then 1 else 0))
      | Num t \<Rightarrow> if t \<ge> 37.8 then Inr 1
                 else (case hr of PyNone \<Rightarrow> Inl TypeError | NaN \<Rightarrow> Inr 0
                       | Num h \<Rightarrow> Inr (if h > 110 then 1 else 0)))"
  by (simp add: weather_penalty_def py_ge_def py_gt_def split: pyval.split)

lemma weather_penalty_other:
  "w \<noteq> ''Hot'' \<Longrightarrow> weather_penalty w skin hr =
     Inr (if w = ''Storm'' then 2 else if w = ''Rain'' \<or> w = ''Snow'' \<or> w = ''Fog'' then 1 else 0)"
  by (simp add: weather_penalty_def)

lemma weather_penalty_bounds:
  "weather_penalty w skin hr = Inr p \<Longrightarrow> 0 \<le> p \<and> p \<le> 2"
  by (cases "w = ''Hot''")
     (auto simp: weather_penalty_Hot weather_penalty_other split: pyval.splits if_splits)

lemma weather_penalty_no_none:
  "skin \<noteq> PyNone \<Longrightarrow> hr \<noteq> PyNone \<Longrightarrow> \<exists>p. weather_penalty w skin hr = Inr p"
  by (cases "w = ''Hot''")
     (auto simp: weather_penalty_Hot weather_penalty_other split: pyval.splits if_splits)

section \<open>The total as a sum of stages, and its range\<close>

lemma rule_score_no_none:
  assumes "no_none r"
  shows "rule_score r =
     Inr (wearable_risk_score (hr_bpm r) (spo2_pct r) (skin_temp r) THRESHOLDS
          + projr (bp_sys_penalty (bloodpressure_systolic r))
          + projr (bp_dia_penalty (bp_diastolic r))
          + projr (altitude_spo2_penalty (altitude r) (spo2_pct r))
          + steps_penalty (steps r)
          + incident_penalty (past_incident_flag r)
          + projr (weather_penalty (weather_condition r) (skin_temp r) (hr_bpm r)))"
proof -
  from assms obtain a where a: "bp_sys_penalty (bloodpressure_systolic r) = Inr a"
    by (cases "bloodpressure_systolic r") (auto simp: no_none_def bp_sys_penalty_simps)
  from assms obtain b where b: "bp_dia_penalty (bp_diastolic r) = Inr b"
    by (cases "bp_diastolic r") (auto simp: no_none_def bp_dia_penalty_simps)
  from assms obtain c where c: "altitude_spo2_penalty (altitude r) (spo2_pct r) = Inr c"
    by (cases "spo2_pct r") (auto simp: no_none_def altitude_spo2_penalty_simps)
  from assms obtain w where w: "weather_penalty (weather_condition r) (skin_temp r) (hr_bpm r) = Inr w"
    using weather_penalty_no_none [of "skin_temp r" "hr_bpm r" "weather_condition r"]
    by (auto simp: no_none_def)
  show ?thesis
    by (simp add: rule_score_def a b c w Let_def)
qed

lemma wearable_risk_score_bounds:
  "0 \<le> wearable_risk_score h s t THRESHOLDS \<and> wearable_risk_score h s t THRESHOLDS \<le> 9"
proof -
  have "0 \<le> (case h of Num v \<Rightarrow>
        (if v > 140 \<or> v < 45 then 3 else if v > 130 \<or> v < 50 then 2
         else if v > 110 \<or> v < 60 then 1 else 0) | _ \<Rightarrow> (0::int))
        \<and> (case h of Num v \<Rightarrow>
        (if v > 140 \<or> v < 45 then 3 else if v > 130 \<or> v < 50 then 2
         else if v > 110 \<or> v < 60 then 1 else 0) | _ \<Rightarrow> (0::int)) \<le> 3"
    by (simp split: pyval.split)
  moreover have "0 \<le> (case s of Num v \<Rightarrow>
        (if v < 88 then 3 else if v < 92 then 2 else if v < 95 then 1 else 0) | _ \<Rightarrow> (0::int))
      \<and> (case s of Num v \<Rightarrow>
        (if v < 88 then 3 else if v < 92 then 2 else if v < 95 then 1 else 0) | _ \<Rightarrow> (0::int)) \<le> 3"
    by (simp split: pyval.split)
  moreover have "0 \<le> (case t of Num v \<Rightarrow>
        (if v \<ge> 38.5 then 3 else if v \<ge> 37.8 then 2 else if v \<le> 35 then 2
         else if v \<le> 35.5 then 1 else 0) | _ \<Rightarrow> (0::int))
     \<and> (case t of Num v \<Rightarrow>
        (if v \<ge> 38.5 then 3 else if v \<ge> 37.8 then 2 else if v \<le> 35 then 2
         else if v \<le> 35.5 then 1 else 0) | _ \<Rightarrow> (0::int)) \<le> 3"
    by (simp split: pyval.split)
  ultimately show ?thesis
    unfolding wearable_risk_score_THRESHOLDS by linarith
qed

lemma bp_sys_penalty_bounds: "bp_sys_penalty x = Inr p \<Longrightarrow> 0 \<le> p \<and> p \<le> 3"
  by (cases x) (auto simp: bp_sys_penalty_simps split: if_splits)

lemma bp_dia_penalty_bounds: "bp_dia_penalty x = Inr p \<Longrightarrow> 0 \<le> p \<and> p \<le> 2"
  by (cases x) (auto simp: bp_dia_penalty_simps split: if_splits)

lemma altitude_spo2_penalty_bounds: "altitude_spo2_penalty alt x = Inr p \<Longrightarrow> 0 \<le> p \<and> p \<le> 4"
  by (cases x) (auto simp: altitude_spo2_penalty_simps split: if_splits)

lemma steps_penalty_bounds: "0 \<le> steps_penalty n \<and> steps_penalty n \<le> 2"
  by (simp add: steps_penalty_eq)

lemma incident_penalty_bounds: "0 \<le> incident_penalty f \<and> incident_penalty f \<le> 2"
  by (simp add: incident_penalty_def)

lemma rule_score_bounds:
  assumes "rule_score r = Inr s"
  shows "0 \<le> s \<and> s \<le> 24"
proof -
  from assms obtain a b c w where
    a: "bp_sys_penalty (bloodpressure_systolic r) = Inr a" and
    b: "bp_dia_penalty (bp_diastolic r) = Inr b" and
    c: "altitude_spo2_penalty (altitude r) (spo2_pct r) = Inr c" and
    w: "weather_penalty (weather_condition r) (skin_temp r) (hr_bpm r) = Inr w" and
    s: "s = wearable_risk_score (hr_bpm r) (spo2_pct r) (skin_temp r) THRESHOLDS
            + a + b + c + steps_penalty (steps r)
            + incident_penalty (past_incident_flag r) + w"
    by (auto simp: rule_score_def Let_def split: sum.splits)
  note wearable_risk_score_bounds [of "hr_bpm r" "spo2_pct r" "skin_temp r"]
    bp_sys_penalty_bounds [OF a] bp_dia_penalty_bounds [OF b]
    altitude_spo2_penalty_bounds [OF c] weather_penalty_bounds [OF w]
    steps_penalty_bounds [of "steps r"] incident_penalty_bounds [of "past_incident_flag r"]
  then show ?thesis unfolding s by linarith
qed

section \<open>Sample rows\<close>

lemma sample_rows_no_none:
  "no_none calm_row" "no_none tornado_row" "no_none hot_nan_row"
  "no_none scenario_row" "no_none worst_row"
  by (simp_all add: no_none_def calm_row_def tornado_row_def hot_nan_row_def
        scenario_row_def worst_row_def)

section \<open>Label mapping over the configured bands\<close>

text \<open>
  C1 (amended).  Over the configured bands \<open>map_total_to_label\<close> returns MODERATE
  exactly for totals 3 to 6, HIGH exactly for 7 to 11 and CRITICAL exactly for 12 to 99.
  The bands cover the integers 0 to 99 and no others: the loop ends without a match
  exactly for a negative total or a total above 99, and there the fallback decides, so
  LOW is returned exactly for totals up to 2 and for totals above 99.
\<close>

theorem map_total_to_label_bands:
  "map_total_to_label tot (cfg_label_bands THRESHOLDS) =
     (if 0 \<le> tot \<and> tot \<le> 2 then ''LOW''
      else if 3 \<le> tot \<and> tot \<le> 6 then ''MODERATE''
      else if 7 \<le> tot \<and> tot \<le> 11 then ''HIGH''
      else if 12 \<le> tot \<and> tot \<le> 99 then ''CRITICAL''
      else ''LOW'')
   \<and> (map_total_to_label tot (cfg_label_bands THRESHOLDS) = ''LOW''
        \<longleftrightarrow> tot \<le> 2 \<or> 99 < tot)
   \<and> (map_total_to_label tot (cfg_label_bands THRESHOLDS) = ''MODERATE''
        \<longleftrightarrow> 3 \<le> tot \<and> tot \<le> 6)
   \<and> (map_total_to_label tot (cfg_label_bands THRESHOLDS) = ''HIGH''
        \<longleftrightarrow> 7 \<le> tot \<and> tot \<le> 11)
   \<and> (map_total_to_label tot (cfg_label_bands THRESHOLDS) = ''CRITICAL''
        \<longleftrightarrow> 12 \<le> tot \<and> tot \<le> 99)
   \<and> (scan_bands tot (cfg_label_bands THRESHOLDS) = None \<longleftrightarrow> tot < 0 \<or> 99 < tot)"
  by (auto simp: map_total_to_label_def scan_label_bands)

text \<open>
  C1 as stated fails at the total 100: it is at least 12, no band holds it, and the
  fallback returns LOW, not CRITICAL.
\<close>

theorem map_total_to_label_100:
  "(12::int) \<le> 100
   \<and> map_total_to_label 100 (cfg_label_bands THRESHOLDS) = ''LOW''
   \<and> map_total_to_label 100 (cfg_label_bands THRESHOLDS) \<noteq> ''CRITICAL''
   \<and> scan_bands 100 (cfg_label_bands THRESHOLDS) = None"
  by (simp add: map_total_to_label_def scan_label_bands)

section \<open>The vitals ladders\<close>

text \<open>
  C2 (amended).  With only the named vital present, the vitals sub-score is 2 for an
  oxygen saturation of 88.0 and 2 for 88.1 (it is 3 exactly below 88, the comparison
  being strict); it is 2 for a heart rate of 140.0 and 3 for 140.1 (it is 3 exactly
  above 140 or below 45).
\<close>

theorem vitals_boundary_tiers:
  assumes "is_missing a" and "is_missing b"
  shows "wearable_risk_score a (Num 88.0) b THRESHOLDS = 2
       \<and> wearable_risk_score a (Num 88.1) b THRESHOLDS = 2
       \<and> wearable_risk_score (Num 140.0) a b THRESHOLDS = 2
       \<and> wearable_risk_score (Num 140.1) a b THRESHOLDS = 3
       \<and> (wearable_risk_score a (Num v) b THRESHOLDS = 3 \<longleftrightarrow> v < 88)
       \<and> (wearable_risk_score (Num v) a b THRESHOLDS = 3 \<longleftrightarrow> v > 140 \<or> v < 45)"
  using assms
  by (cases a; cases b) (simp_all add: is_missing_def wearable_risk_score_THRESHOLDS)

theorem vitals_boundary_tiers_witness:
  "is_missing PyNone \<and> is_missing NaN
   \<and> wearable_risk_score PyNone (Num 88.0) NaN THRESHOLDS = 2
   \<and> wearable_risk_score PyNone (Num 88.1) NaN THRESHOLDS = 2
   \<and> wearable_risk_score (Num 140.0) PyNone NaN THRESHOLDS = 2
   \<and> wearable_risk_score (Num 140.1) PyNone NaN THRESHOLDS = 3
   \<and> wearable_risk_score PyNone (Num 87.9) NaN THRESHOLDS = 3"
proof -
  have m: "is_missing PyNone" "is_missing NaN"
    by (simp_all add: is_missing_def)
  from vitals_boundary_tiers [OF m, of "87.9"] m show ?thesis
    by simp
qed

text \<open>
  C2 as stated fails at an oxygen saturation of 88.0: \<open>88.0 < 88\<close> is false, so
  the score is 2, not 3.
\<close>

theorem spo2_88_scores_2:
  "wearable_risk_score PyNone (Num 88.0) PyNone THRESHOLDS = 2
   \<and> wearable_risk_score NaN (Num 88.0) NaN THRESHOLDS = 2
   \<and> wearable_risk_score PyNone (Num 88.0) PyNone THRESHOLDS \<noteq> 3"
  by (simp add: wearable_risk_score_THRESHOLDS)

text \<open>
  C7.  A present skin temperature adds to the vitals sub-score 3 from 38.5 up, else 2
  from 37.8 up, else 2 up to 35.0, else 1 up to 35.5, else 0.  So every reading up to
  35.0 adds 2, and every reading above 35.0 and up to 35.5 adds 1.
\<close>

theorem skin_temp_tiers:
  "wearable_risk_score h s (Num v) THRESHOLDS =
     wearable_risk_score h s NaN THRESHOLDS
     + (if v \<ge> 38.5 then 3 else if v \<ge> 37.8 then 2 else if v \<le> 35.0 then 2
        else if v \<le> 35.5 then 1 else 0)
   \<and> (u \<le> 35.0 \<longrightarrow>
        wearable_risk_score h s (Num u) THRESHOLDS = wearable_risk_score h s NaN THRESHOLDS + 2)
   \<and> (35.0 < w \<and> w \<le> 35.5 \<longrightarrow>
        wearable_risk_score h s (Num w) THRESHOLDS = wearable_risk_score h s NaN THRESHOLDS + 1)"
  by (simp add: wearable_risk_score_THRESHOLDS)

theorem skin_temp_tiers_witness:
  "(34::real) \<le> 35.0 \<and> (35.0::real) < 35.5 \<and> (35.5::real) \<le> 35.5
   \<and> wearable_risk_score NaN NaN (Num 39) THRESHOLDS = 3
   \<and> wearable_risk_score NaN NaN (Num 34) THRESHOLDS = 2
   \<and> wearable_risk_score NaN NaN (Num 35.5) THRESHOLDS = 1"
  using skin_temp_tiers [of NaN NaN 39 34 "35.5"]
  by (simp add: wearable_risk_score_THRESHOLDS)

section \<open>Blood pressure, altitude and steps\<close>

text \<open>
  C8.  A present diastolic reading adds 2 from 110 up, 2 from 100 to below 110, 1 from
  90 to below 100, 2 up to 45, 2 above 45 up to 50, 1 above 50 up to 60, and 0
  otherwise.  The seven ranges exclude one another, so the penalty is the sum of their
  separate awards, and the total of a row is its total without the reading plus that
  penalty.
\<close>

theorem bp_dia_penalty_tiers:
  "bp_dia_penalty (Num v) =
     Inr (if v \<ge> 110 then 2
          else if 100 \<le> v \<and> v < 110 then 2
          else if 90 \<le> v \<and> v < 100 then 1
          else if v \<le> 45 then 2
          else if 45 < v \<and> v \<le> 50 then 2
          else if 50 < v \<and> v \<le> 60 then 1
          else 0)
   \<and> bp_dia_penalty (Num v) =
     Inr ((if v \<ge> 110 then 2 else 0)
          + (if 100 \<le> v \<and> v < 110 then 2 else 0)
          + (if 90 \<le> v \<and> v < 100 then 1 else 0)
          + (if v \<le> 45 then 2 else 0)
          + (if 45 < v \<and> v \<le> 50 then 2 else 0)
          + (if 50 < v \<and> v \<le> 60 then 1 else 0))
   \<and> rule_score (r\<lparr>bp_diastolic := Num v\<rparr>) =
       map_sum id (\<lambda>s. s + projr (bp_dia_penalty (Num v)))
         (rule_score (r\<lparr>bp_diastolic := NaN\<rparr>))"
  by (simp add: bp_dia_penalty_simps rule_score_def Let_def split: sum.split)

text \<open>
  C5.  At altitude 3200 with oxygen saturation 85 the interaction adds 4 (3 and 1 more)
  and the saturation ladder of the vitals sub-score adds 3: the total of any row with
  these two readings is 7 above its total with the saturation missing.  The interaction
  takes one branch at most (3 or 4 from the first, 2 from the second).
\<close>

theorem altitude_oxygen_stacking:
  "altitude_spo2_penalty 3200 (Num 85) = Inr 4
   \<and> wearable_risk_score NaN (Num 85) NaN THRESHOLDS = 3
   \<and> altitude_spo2_penalty alt (Num v) =
       Inr (if alt \<ge> 3000 \<and> v < 92 then (if v < 88 then 3 + 1 else 3)
            else if alt \<ge> 2500 \<and> v < 94 then 2 else 0)
   \<and> rule_score (r\<lparr>altitude := 3200, spo2_pct := Num 85\<rparr>) =
       map_sum id (\<lambda>s. s + 7) (rule_score (r\<lparr>altitude := 3200, spo2_pct := NaN\<rparr>))"
  by (simp add: altitude_spo2_penalty_simps wearable_risk_score_THRESHOLDS rule_score_def
        Let_def split: sum.split)

text \<open>
  C10.  The activity sub-score equals the shorter function (2 up to 2000 steps, else 1
  from 30000 steps, else 0) for every integer, and the test against 1000 is never
  reached with a true outcome: a count that failed the test against \<open>very_low\<close> is
  above 1000.
\<close>

theorem steps_penalty_simple:
  "steps_penalty n = steps_simple n
   \<and> \<not> (\<not> n \<le> steps_very_low (cfg_steps THRESHOLDS) \<and> n \<le> 1000)"
  by (auto simp: steps_penalty_eq steps_simple_def THRESHOLDS_def)

section \<open>Weather outside the list, and missing readings\<close>

text \<open>
  C3 (amended).  For every row whose weather is none of the eight listed values the
  weather stage adds zero and raises nothing: score and label are those of the same
  row under \<open>Clear\<close>, and the call returns a label whenever no reading is \<open>None\<close>.
\<close>

theorem weather_outside_enum_scores_zero:
  assumes "weather_condition r \<notin> set WEATHERS"
  shows "weather_penalty (weather_condition r) (skin_temp r) (hr_bpm r) = Inr 0
       \<and> rule_score r = rule_score (r\<lparr>weather_condition := ''Clear''\<rparr>)
       \<and> rule_label_row r = rule_label_row (r\<lparr>weather_condition := ''Clear''\<rparr>)
       \<and> (no_none r \<longrightarrow>
            (\<exists>s. rule_score r = Inr s
                 \<and> rule_label_row r = Inr (map_total_to_label s (cfg_label_bands THRESHOLDS))))"
proof -
  from assms have w: "weather_penalty (weather_condition r) (skin_temp r) (hr_bpm r) = Inr 0"
    by (simp add: WEATHERS_def weather_penalty_def)
  have c: "weather_penalty ''Clear'' (skin_temp r) (hr_bpm r) = Inr 0"
    by (simp add: weather_penalty_def)
  have s: "rule_score r = rule_score (r\<lparr>weather_condition := ''Clear''\<rparr>)"
    by (simp add: rule_score_def w c Let_def split: sum.split)
  have "no_none r \<longrightarrow>
          (\<exists>s. rule_score r = Inr s
               \<and> rule_label_row r = Inr (map_total_to_label s (cfg_label_bands THRESHOLDS)))"
    by (auto simp: rule_label_row_def dest: rule_score_no_none)
  with w s show ?thesis
    by (simp add: rule_label_row_def)
qed

theorem weather_outside_enum_scores_zero_witness:
  "weather_condition tornado_row \<notin> set WEATHERS \<and> no_none tornado_row
   \<and> rule_score tornado_row = rule_score calm_row
   \<and> (\<exists>s. rule_score tornado_row = Inr s)"
proof -
  have h: "weather_condition tornado_row \<notin> set WEATHERS"
    by (simp add: tornado_row_def calm_row_def WEATHERS_def)
  have c: "tornado_row\<lparr>weather_condition := ''Clear''\<rparr> = calm_row"
    by (simp add: tornado_row_def calm_row_def)
  note t = weather_outside_enum_scores_zero [OF h]
  from t have "rule_score tornado_row = rule_score calm_row"
    by (simp only: c)
  moreover from t sample_rows_no_none(2) have "\<exists>s. rule_score tornado_row = Inr s"
    by blast
  ultimately show ?thesis
    using h sample_rows_no_none(2) by blast
qed

text \<open>
  C3 as stated fails at a row with the weather \<open>Tornado\<close>: the call returns the
  label LOW from a total of 0.
\<close>

theorem tornado_row_is_labelled:
  "weather_condition tornado_row \<notin> set WEATHERS
   \<and> rule_score tornado_row = Inr 0
   \<and> rule_label_row tornado_row = Inr ''LOW''"
  by (simp add: tornado_row_def calm_row_def WEATHERS_def rule_label_row_def rule_score_def
        wearable_risk_score_THRESHOLDS bp_sys_penalty_simps bp_dia_penalty_simps
        altitude_spo2_penalty_simps steps_penalty_eq incident_penalty_def
        weather_penalty_def map_total_to_label_def scan_label_bands)

text \<open>
  C4 (amended).  For every row whose readings are numbers or not-a-number, scoring
  returns a label, the total is the sum of the stages, and a not-a-number reading adds
  zero at every stage that reads it: the vitals sub-score is the sum of its three
  ladders and is 0 with all three missing, both pressure stages and the altitude stage
  give 0, and under \<open>Hot\<close> a comparison with not-a-number is false, so the stage
  adds what the other reading alone decides.  (The vitals sub-score takes \<open>None\<close>
  as missing too.)
\<close>

theorem nan_vitals_contribute_zero:
  assumes "no_none r"
  shows "(\<exists>s. rule_score r = Inr s
            \<and> rule_label_row r = Inr (map_total_to_label s (cfg_label_bands THRESHOLDS)))
       \<and> rule_score r =
           Inr (wearable_risk_score (hr_bpm r) (spo2_pct r) (skin_temp r) THRESHOLDS
                + projr (bp_sys_penalty (bloodpressure_systolic r))
                + projr (bp_dia_penalty (bp_diastolic r))
                + projr (altitude_spo2_penalty (altitude r) (spo2_pct r))
                + steps_penalty (steps r)
                + incident_penalty (past_incident_flag r)
                + projr (weather_penalty (weather_condition r) (skin_temp r) (hr_bpm r)))
       \<and> wearable_risk_score h s t THRESHOLDS =
           wearable_risk_score h NaN NaN THRESHOLDS
           + wearable_risk_score NaN s NaN THRESHOLDS
           + wearable_risk_score NaN NaN t THRESHOLDS
       \<and> wearable_risk_score NaN NaN NaN THRESHOLDS = 0
       \<and> wearable_risk_score PyNone PyNone PyNone THRESHOLDS = 0
       \<and> bp_sys_penalty NaN = Inr 0
       \<and> bp_dia_penalty NaN = Inr 0
       \<and> altitude_spo2_penalty alt NaN = Inr 0
       \<and> weather_penalty ''Hot'' NaN NaN = Inr 0
       \<and> weather_penalty ''Hot'' NaN (Num v) = Inr (if v > 110 then 1 else 0)
       \<and> weather_penalty ''Hot'' (Num u) NaN = Inr (if u \<ge> 37.8 then 1 else 0)"
proof -
  note d = rule_score_no_none [OF assms]
  then have "\<exists>s. rule_score r = Inr s
            \<and> rule_label_row r = Inr (map_total_to_label s (cfg_label_bands THRESHOLDS))"
    by (simp add: rule_label_row_def)
  moreover have "wearable_risk_score h s t THRESHOLDS =
           wearable_risk_score h NaN NaN THRESHOLDS
           + wearable_risk_score NaN s NaN THRESHOLDS
           + wearable_risk_score NaN NaN t THRESHOLDS"
    by (simp add: wearable_risk_score_THRESHOLDS)
  moreover have "wearable_risk_score NaN NaN NaN THRESHOLDS = 0"
    "wearable_risk_score PyNone PyNone PyNone THRESHOLDS = 0"
    by (simp_all add: wearable_risk_score_THRESHOLDS)
  moreover have "weather_penalty ''Hot'' NaN NaN = Inr 0"
    "weather_penalty ''Hot'' NaN (Num v) = Inr (if v > 110 then 1 else 0)"
    "weather_penalty ''Hot'' (Num u) NaN = Inr (if u \<ge> 37.8 then 1 else 0)"
    by (simp_all add: weather_penalty_Hot)
  ultimately show ?thesis
    using d by (simp add: bp_sys_penalty_simps bp_dia_penalty_simps altitude_spo2_penalty_simps)
qed

theorem nan_vitals_contribute_zero_witness:
  "no_none hot_nan_row \<and> rule_score hot_nan_row = Inr 0
   \<and> rule_label_row hot_nan_row = Inr ''LOW''"
proof -
  note t = nan_vitals_contribute_zero [OF sample_rows_no_none(3)]
  from t have "rule_score hot_nan_row = Inr 0"
    by (simp add: hot_nan_row_def calm_row_def wearable_risk_score_THRESHOLDS
          bp_sys_penalty_simps bp_dia_penalty_simps altitude_spo2_penalty_simps
          steps_penalty_eq incident_penalty_def weather_penalty_Hot)
  moreover from this have "rule_label_row hot_nan_row = Inr ''LOW''"
    by (simp add: rule_label_row_def map_total_to_label_def scan_label_bands)
  ultimately show ?thesis
    using sample_rows_no_none(3) by simp
qed

text \<open>
  C4 as stated fails where the missing reading is \<open>None\<close>: a row without a
  systolic reading, and a row under \<open>Hot\<close> without a heart rate, both raise
  \<open>TypeError\<close>.
\<close>

theorem none_reading_raises:
  "is_missing (bloodpressure_systolic absent_sys_row)
   \<and> rule_label_row absent_sys_row = Inl TypeError
   \<and> is_missing (hr_bpm hot_absent_hr_row)
   \<and> weather_condition hot_absent_hr_row = ''Hot''
   \<and> rule_label_row hot_absent_hr_row = Inl TypeError"
  by (simp add: absent_sys_row_def hot_absent_hr_row_def calm_row_def is_missing_def
        rule_label_row_def rule_score_def bp_sys_penalty_simps bp_dia_penalty_simps
        altitude_spo2_penalty_simps weather_penalty_Hot)

section \<open>Whole rows\<close>

text \<open>
  C6.  The row with heart rate 150, oxygen saturation 90, skin temperature 36, pressure
  100 over 70, altitude 1000, 5000 steps, no past incident and clear weather has the
  total 5 (3 from the heart rate, 2 from the saturation, 0 from every other stage) and
  the label MODERATE.
\<close>

theorem scenario_row_moderate:
  "rule_score scenario_row = Inr 5
   \<and> rule_label_row scenario_row = Inr ''MODERATE''
   \<and> wearable_risk_score (Num 150) NaN NaN THRESHOLDS = 3
   \<and> wearable_risk_score NaN (Num 90) NaN THRESHOLDS = 2
   \<and> wearable_risk_score NaN NaN (Num 36) THRESHOLDS = 0
   \<and> bp_sys_penalty (Num 100) = Inr 0
   \<and> bp_dia_penalty (Num 70) = Inr 0
   \<and> altitude_spo2_penalty 1000 (Num 90) = Inr 0
   \<and> steps_penalty 5000 = 0
   \<and> incident_penalty 0 = 0
   \<and> weather_penalty ''Clear'' (Num 36) (Num 150) = Inr 0"
  by (simp add: scenario_row_def rule_label_row_def rule_score_def
        wearable_risk_score_THRESHOLDS bp_sys_penalty_simps bp_dia_penalty_simps
        altitude_spo2_penalty_simps steps_penalty_eq incident_penalty_def
        weather_penalty_def map_total_to_label_def scan_label_bands)

text \<open>
  C9.  For every row with a listed weather and a non-negative step count, the total
  that \<open>rule_label_row\<close> computes lies between 0 and 24, so a band holds it and the
  label comes from the loop, never from the fallback; and a total is computed whenever
  no reading is \<open>None\<close>.
\<close>

theorem rule_score_range:
  assumes "well_formed r"
  shows "(\<forall>s. rule_score r = Inr s \<longrightarrow>
            0 \<le> s \<and> s \<le> 24
            \<and> scan_bands s (cfg_label_bands THRESHOLDS) \<noteq> None
            \<and> rule_label_row r = Inr (the (scan_bands s (cfg_label_bands THRESHOLDS))))
       \<and> (no_none r \<longrightarrow> (\<exists>s. rule_score r = Inr s))"
proof -
  have "0 \<le> s \<and> s \<le> 24
        \<and> scan_bands s (cfg_label_bands THRESHOLDS) \<noteq> None
        \<and> rule_label_row r = Inr (the (scan_bands s (cfg_label_bands THRESHOLDS)))"
    if s: "rule_score r = Inr s" for s
  proof -
    from s have b: "0 \<le> s \<and> s \<le> 24"
      by (rule rule_score_bounds)
    then have n: "scan_bands s (cfg_label_bands THRESHOLDS) \<noteq> None"
      by (simp add: scan_label_bands)
    then have "rule_label_row r = Inr (the (scan_bands s (cfg_label_bands THRESHOLDS)))"
      by (auto simp: rule_label_row_def s map_total_to_label_def)
    with b n show ?thesis
      by blast
  qed
  moreover have "no_none r \<longrightarrow> (\<exists>s. rule_score r = Inr s)"
    using rule_score_no_none by blast
  ultimately show ?thesis
    by blast
qed

theorem rule_score_range_witness:
  "well_formed worst_row \<and> no_none worst_row \<and> rule_score worst_row = Inr 24
   \<and> rule_label_row worst_row = Inr ''CRITICAL''"
proof -
  have h: "well_formed worst_row"
    by (simp add: well_formed_def worst_row_def WEATHERS_def)
  have e: "rule_score worst_row = Inr 24"
    by (simp add: worst_row_def rule_score_def
        wearable_risk_score_THRESHOLDS bp_sys_penalty_simps bp_dia_penalty_simps
        altitude_spo2_penalty_simps steps_penalty_eq incident_penalty_def
        weather_penalty_def)
  from rule_score_range [OF h] e have "rule_label_row worst_row = Inr ''CRITICAL''"
    by (simp add: scan_label_bands)
  with h e sample_rows_no_none(5) show ?thesis
    by simp
qed

end
